theory Spec2Isabelle
  imports Main
begin

section \<open>JavaScript values and the database handles\<close>

text \<open>
  The values that reach \<open>metrics.js\<close> as a column of a row or as the reason of a
  rejected promise: the primitives and \<open>Error\<close> objects (held by their message).
  \<open>JNum\<close> holds the integral numbers, which JavaScript prints in plain decimal digits
  below \<open>10^21\<close>.
\<close>

datatype jsval =
    JUndefined
  | JNull
  | JBool bool
  | JNum int
  | JStr string
  | JError string

text \<open>Truthiness, as \<open>if (x)\<close> and \<open>a || b\<close> test it.\<close>

fun truthy :: "jsval \<Rightarrow> bool" where
  "truthy JUndefined = False"
| "truthy JNull = False"
| "truthy (JBool b) = b"
| "truthy (JNum n) = (n \<noteq> 0)"
| "truthy (JStr s) = (s \<noteq> [])"
| "truthy (JError m) = True"

definition js_or :: "jsval \<Rightarrow> jsval \<Rightarrow> jsval" where
  "js_or a b = (if truthy a then a else b)"

text \<open>Decimal digits of an integer, as a template literal and \<open>String\<close> print it.\<close>

definition digit :: "nat \<Rightarrow> char" where
  "digit n = ''0123456789'' ! n"

function digits :: "nat \<Rightarrow> string" where
  "digits n = (if n < 10 then [digit n] else digits (n div 10) @ [digit (n mod 10)])"
  by pat_completeness auto
termination
  by (relation "measure (\<lambda>n. n)") auto

declare digits.simps [simp del]

definition dec :: "int \<Rightarrow> string" where
  "dec i = (if i < 0 then CHR ''-'' # digits (nat (- i)) else digits (nat i))"

text \<open>\<open>String(v)\<close>.\<close>

fun js_String :: "jsval \<Rightarrow> string" where
  "js_String JUndefined = ''undefined''"
| "js_String JNull = ''null''"
| "js_String (JBool b) = (if b then ''true'' else ''false'')"
| "js_String (JNum n) = dec n"
| "js_String (JStr s) = s"
| "js_String (JError m) = (if m = [] then ''Error'' else ''Error: '' @ m)"

text \<open>\<open>s.toLowerCase()\<close> on the ASCII letters; the category labels are ASCII.\<close>

definition lower_char :: "char \<Rightarrow> char" where
  "lower_char c =
     (case map_of (zip ''ABCDEFGHIJKLMNOPQRSTUVWXYZ'' ''abcdefghijklmnopqrstuvwxyz'') c of
        Some l \<Rightarrow> l
      | None \<Rightarrow> c)"

definition toLowerCase :: "string \<Rightarrow> string" where
  "toLowerCase s = map lower_char s"

text \<open>
  A row is a mapping of column names to values; \<open>rows[0].total\<close> is \<open>undefined\<close> when
  the column is missing.
\<close>

type_synonym row = "(string \<times> jsval) list"

definition row_total :: "row \<Rightarrow> jsval" where
  "row_total r = (case map_of r ''total'' of Some v \<Rightarrow> v | None \<Rightarrow> JUndefined)"

text \<open>The two pools and the SQL texts of \<open>metrics.js\<close>, by the names of their constants.\<close>

datatype handle = ReadPool | WritePool

datatype statement =
    COUNT_USERS
  | SUM_CONTENT_DAG_SIZE
  | COUNT_UPLOADS
  | COUNT_UPLOADS_PER_TYPE
  | COUNT_PINS
  | COUNT_PINS_PER_STATUS
  | COUNT_PIN_REQUESTS
  | UPDATE_METRIC

text \<open>What the promise of \<open>pool.query(text, params)\<close> settles to.\<close>

datatype reply = Rows "row list" | Failed jsval

text \<open>
  What a settled element of the array can carry: \<open>undefined\<close> (an async function that
  ends without \<open>return\<close>), the result object of a query, or the options object
  \<open>{ concurrency: n }\<close>.
\<close>

datatype "value" = VUndefined | VResult "row list" | VOptions nat

section \<open>Async functions as resumptions\<close>

text \<open>
  An async function is the tree of what it does next: it returns, it throws, it awaits
  \<open>pool.query\<close> and goes on with the reply, it reads \<open>Date.now()\<close>, or it writes
  a line with \<open>log\<close>.
\<close>

datatype 'a proc =
    Done 'a
  | Raise jsval
  | Query handle statement "jsval list" "reply \<Rightarrow> 'a proc"
  | Now "int \<Rightarrow> 'a proc"
  | Log string "'a proc"

datatype event =
    Issued handle statement "jsval list"
  | Logged string
  | ConsoleError jsval

datatype 'a outcome = Fulfilled 'a | Rejected jsval

datatype 'a tstate = Waiting "reply \<Rightarrow> 'a proc" | Settled "'a outcome"

text \<open>
  The synchronous part of a call at time \<open>t\<close>: it runs up to the next \<open>await\<close> of a
  query (which is issued at once) or to the end.
\<close>

primrec sync :: "'a proc \<Rightarrow> int \<Rightarrow> event list \<times> 'a tstate" where
  "sync (Done v) = (\<lambda>t. ([], Settled (Fulfilled v)))"
| "sync (Raise e) = (\<lambda>t. ([], Settled (Rejected e)))"
| "sync (Query h s ps k) = (\<lambda>t. ([Issued h s ps], Waiting k))"
| "sync (Now k) = (\<lambda>t. sync (k t) t)"
| "sync (Log m p) = (\<lambda>t. case sync p t of (es, st) \<Rightarrow> (Logged m # es, st))"

text \<open>
  One call alone: the replies of the pools arrive in turn, each with the time of its
  arrival. The result is what was observed, the state reached and the time reached.
\<close>

fun drive :: "'a tstate \<Rightarrow> int \<Rightarrow> (reply \<times> int) list \<Rightarrow> event list \<times> 'a tstate \<times> int" where
  "drive (Settled out) t rs = ([], Settled out, t)"
| "drive (Waiting k) t [] = ([], Waiting k, t)"
| "drive (Waiting k) t ((r, t') # rs) =
     (case sync (k r) t' of (es, st) \<Rightarrow>
        (case drive st t' rs of (es', st', tf) \<Rightarrow> (es @ es', st', tf)))"

definition exec :: "'a proc \<Rightarrow> int \<Rightarrow> (reply \<times> int) list \<Rightarrow> event list \<times> 'a tstate \<times> int" where
  "exec p t0 rs =
     (case sync p t0 of (es, st) \<Rightarrow>
        (case drive st t0 rs of (es', st', tf) \<Rightarrow> (es @ es', st', tf)))"

text \<open>The metric writes among the events: name and value of each \<open>UPDATE_METRIC\<close>.\<close>

fun writes :: "event list \<Rightarrow> (jsval \<times> jsval) list" where
  "writes [] = []"
| "writes (Issued h UPDATE_METRIC [n, v] # es) = (n, v) # writes es"
| "writes (e # es) = writes es"

section \<open>The metric functions\<close>

definition publish :: "handle \<Rightarrow> string \<Rightarrow> jsval \<Rightarrow> value proc" where
  \<comment> \<open>\<open>await rwPg.query(UPDATE_METRIC, [name, value])\<close> as the last statement\<close>
  "publish rwPg name v =
     Query rwPg UPDATE_METRIC [JStr name, v]
       (\<lambda>w. case w of Failed e \<Rightarrow> Raise e | Rows _ \<Rightarrow> Done VUndefined)"

definition publish_return :: "handle \<Rightarrow> string \<Rightarrow> jsval \<Rightarrow> value proc" where
  \<comment> \<open>\<open>return rwPg.query(UPDATE_METRIC, [name, value])\<close>\<close>
  "publish_return rwPg name v =
     Query rwPg UPDATE_METRIC [JStr name, v]
       (\<lambda>w. case w of Failed e \<Rightarrow> Raise e | Rows res \<Rightarrow> Done (VResult res))"

definition updateUsersCount :: "handle \<Rightarrow> handle \<Rightarrow> value proc" where
  "updateUsersCount roPg rwPg =
     Query roPg COUNT_USERS []
       (\<lambda>r. case r of Failed e \<Rightarrow> Raise e
             | Rows rows \<Rightarrow>
                 (case rows of
                    [] \<Rightarrow> Raise (JError ''no rows returned counting users'')
                  | r0 # _ \<Rightarrow> publish rwPg ''users_total'' (row_total r0)))"

definition updateContentRootDagSizeSum :: "handle \<Rightarrow> handle \<Rightarrow> value proc" where
  "updateContentRootDagSizeSum roPg rwPg =
     Query roPg SUM_CONTENT_DAG_SIZE []
       (\<lambda>r. case r of Failed e \<Rightarrow> Raise e
             | Rows rows \<Rightarrow>
                 (case rows of
                    [] \<Rightarrow> Raise (JError ''no rows returned counting users'')
                  | r0 # _ \<Rightarrow>
                      publish rwPg ''content_bytes_total'' (JStr (js_String (row_total r0)))))"

text \<open>
  The optional \<open>type\<close> and \<open>status\<close> are \<open>None\<close> when the option is absent
  (\<open>undefined\<close>); \<open>if (type)\<close> takes the branch for a string that is not empty.
\<close>

definition uploads_overall :: "handle \<Rightarrow> handle \<Rightarrow> value proc" where
  \<comment> \<open>lines 114 to 119 of \<open>updateUploadsCount\<close>\<close>
  "uploads_overall roPg rwPg =
     Query roPg COUNT_UPLOADS []
       (\<lambda>r. case r of Failed e \<Rightarrow> Raise e
             | Rows rows \<Rightarrow>
                 (case rows of
                    [] \<Rightarrow> Raise (JError ''no rows returned counting uploads'')
                  | r0 # _ \<Rightarrow> publish_return rwPg ''uploads_total'' (row_total r0)))"

definition uploads_per_type :: "handle \<Rightarrow> handle \<Rightarrow> string \<Rightarrow> value proc" where
  \<comment> \<open>lines 106 to 111 of \<open>updateUploadsCount\<close>\<close>
  "uploads_per_type roPg rwPg type =
     Query roPg COUNT_UPLOADS_PER_TYPE [JStr type]
       (\<lambda>r. case r of Failed e \<Rightarrow> Raise e
             | Rows rows \<Rightarrow>
                 (case rows of
                    [] \<Rightarrow> Raise (JError (''no rows returned counting '' @ type @ '' uploads''))
                  | r0 # _ \<Rightarrow>
                      publish_return rwPg (''uploads_'' @ toLowerCase type @ ''_total'') (row_total r0)))"

definition updateUploadsCount :: "handle \<Rightarrow> handle \<Rightarrow> string option \<Rightarrow> value proc" where
  "updateUploadsCount roPg rwPg type =
     (case type of
        None \<Rightarrow> uploads_overall roPg rwPg
      | Some t \<Rightarrow> if t \<noteq> [] then uploads_per_type roPg rwPg t else uploads_overall roPg rwPg)"

definition pins_overall :: "handle \<Rightarrow> handle \<Rightarrow> value proc" where
  \<comment> \<open>lines 140 to 147 of \<open>updatePinsCount\<close>, reached with or without a status\<close>
  "pins_overall roPg rwPg =
     Query roPg COUNT_PINS []
       (\<lambda>r. case r of Failed e \<Rightarrow> Raise e
             | Rows rows \<Rightarrow>
                 (case rows of
                    [] \<Rightarrow> Raise (JError ''no rows returned counting pins'')
                  | r0 # _ \<Rightarrow> publish rwPg ''pins_total'' (row_total r0)))"

definition pins_per_status :: "handle \<Rightarrow> handle \<Rightarrow> string \<Rightarrow> value proc" where
  \<comment> \<open>lines 130 to 137 of \<open>updatePinsCount\<close>, which go on into lines 140 to 147\<close>
  "pins_per_status roPg rwPg status =
     Query roPg COUNT_PINS_PER_STATUS [JStr status]
       (\<lambda>r. case r of Failed e \<Rightarrow> Raise e
             | Rows rows \<Rightarrow>
                 (case rows of
                    [] \<Rightarrow> Raise (JError (''no rows returned counting '' @ status @ '' pins''))
                  | r0 # _ \<Rightarrow>
                      Query rwPg UPDATE_METRIC
                        [JStr (''pins_'' @ toLowerCase status @ ''_total''), row_total r0]
                        (\<lambda>w. case w of Failed e \<Rightarrow> Raise e
                              | Rows _ \<Rightarrow> pins_overall roPg rwPg)))"

definition updatePinsCount :: "handle \<Rightarrow> handle \<Rightarrow> string option \<Rightarrow> value proc" where
  "updatePinsCount roPg rwPg status =
     (case status of
        None \<Rightarrow> pins_overall roPg rwPg
      | Some s \<Rightarrow> if s \<noteq> [] then pins_per_status roPg rwPg s else pins_overall roPg rwPg)"

definition updatePinRequestsCount :: "handle \<Rightarrow> handle \<Rightarrow> value proc" where
  "updatePinRequestsCount roPg rwPg =
     Query roPg COUNT_PIN_REQUESTS []
       (\<lambda>r. case r of Failed e \<Rightarrow> Raise e
             | Rows rows \<Rightarrow>
                 (case rows of
                    [] \<Rightarrow> Raise (JError ''no rows returned counting pin requests'')
                  | r0 # _ \<Rightarrow> publish rwPg ''pin_requests_total'' (row_total r0)))"

text \<open>
  \<open>withTimeLog\<close>: the \<open>finally\<close> block runs when the awaited call has settled, either
  way, and leaves its value or its error as it is.
\<close>

primrec finally_log :: "string \<Rightarrow> int \<Rightarrow> 'a proc \<Rightarrow> 'a proc" where
  "finally_log name start (Done v) =
     Now (\<lambda>t. Log (name @ '' took: '' @ dec (t - start) @ ''ms'') (Done v))"
| "finally_log name start (Raise e) =
     Now (\<lambda>t. Log (name @ '' took: '' @ dec (t - start) @ ''ms'') (Raise e))"
| "finally_log name start (Query h s ps k) =
     Query h s ps (\<lambda>r. finally_log name start (k r))"
| "finally_log name start (Now k) = Now (\<lambda>t. finally_log name start (k t))"
| "finally_log name start (Log m p) = Log m (finally_log name start p)"

definition withTimeLog :: "string \<Rightarrow> (unit \<Rightarrow> 'a proc) \<Rightarrow> 'a proc" where
  "withTimeLog name fn = Now (\<lambda>start. finally_log name start (fn ()))"

section \<open>The job\<close>

text \<open>
  An element of the array handed to \<open>settle\<close>: the promise of an async call that the
  array literal has already made, or a plain value.
\<close>

datatype 'a element = Promise "'a proc" | Plain 'a

text \<open>
  Evaluating the array literal at time \<open>t\<close>: each call runs its synchronous part, in
  the order of the elements. The state of a run is what has been observed so far and
  the state of each element.
\<close>

fun construct :: "'a element list \<Rightarrow> int \<Rightarrow> event list \<times> 'a tstate list" where
  "construct [] t = ([], [])"
| "construct (Promise p # xs) t =
     (case sync p t of (es, st) \<Rightarrow>
        (case construct xs t of (es', sts) \<Rightarrow> (es @ es', st # sts)))"
| "construct (Plain v # xs) t =
     (case construct xs t of (es', sts) \<Rightarrow> (es', Settled (Fulfilled v) # sts))"

text \<open>
  The event loop: the reply \<open>r\<close> to the query that element \<open>i\<close> awaits arrives at time
  \<open>t\<close>, and that call runs on to its next \<open>await\<close> or to its end. Replies arrive in
  any order, which is the schedule of a run.
\<close>

fun deliver :: "nat \<times> reply \<times> int \<Rightarrow> event list \<times> 'a tstate list \<Rightarrow> event list \<times> 'a tstate list" where
  "deliver (i, r, t) (ev, sts) =
     (if i < length sts then
        (case sts ! i of
           Waiting k \<Rightarrow> (case sync (k r) t of (es, st) \<Rightarrow> (ev @ es, sts[i := st]))
         | Settled out \<Rightarrow> (ev, sts))
      else (ev, sts))"

definition run :: "(nat \<times> reply \<times> int) list \<Rightarrow> event list \<times> 'a tstate list \<Rightarrow> event list \<times> 'a tstate list" where
  "run sched s = fold deliver sched s"

fun is_waiting :: "'a tstate \<Rightarrow> bool" where
  "is_waiting (Waiting k) = True"
| "is_waiting (Settled out) = False"

definition in_flight :: "'a tstate list \<Rightarrow> nat" where
  "in_flight sts = length (filter is_waiting sts)"

text \<open>
  Modelled from the spec: \<open>settle\<close> is the imported package \<open>p-settle\<close> (the
  BoundedTaskRunner of the specification), which is not among the sources. It returns one
  outcome for each element of the array, in the order of the array, and only once every
  element has settled; an element that is a plain value counts as fulfilled with that
  value. Its concurrency limit is its second argument and gates the starting of elements
  that are functions; \<open>updateMetrics\<close> passes one argument and no function.
\<close>

fun settle :: "'a tstate list \<Rightarrow> 'a outcome list option" where
  "settle [] = Some []"
| "settle (Waiting k # sts) = None"
| "settle (Settled out # sts) =
     (case settle sts of None \<Rightarrow> None | Some outs \<Rightarrow> Some (out # outs))"

text \<open>The loop of lines 67 to 72, with the variable \<open>error\<close>.\<close>

fun reduce :: "'a outcome list \<Rightarrow> jsval \<Rightarrow> event list \<times> jsval" where
  "reduce [] error = ([], error)"
| "reduce (Fulfilled v # rs) error = reduce rs error"
| "reduce (Rejected reason # rs) error =
     (case reduce rs (js_or error reason) of (es, e) \<Rightarrow> (ConsoleError reason # es, e))"

datatype completion = Returned | Thrown jsval

definition done_marker :: string where
  \<comment> \<open>the check mark (three bytes in UTF-8) and \<open>Done\<close>\<close>
  "done_marker = [char_of (226 :: nat), char_of (156 :: nat), char_of (133 :: nat)] @ '' Done''"

definition finish :: "'a outcome list \<Rightarrow> event list \<times> completion" where
  "finish results =
     (case reduce results JUndefined of (es, error) \<Rightarrow>
        if truthy error then (es, Thrown error) else (es @ [Logged done_marker], Returned))"

text \<open>
  The array of \<open>updateMetrics\<close>. \<open>UPLOAD_TYPES\<close>, \<open>PIN_STATUSES\<close> and
  \<open>MAX_CONCURRENT_QUERIES\<close> are constants of other modules and are parameters here.
\<close>

definition tasks :: "handle \<Rightarrow> handle \<Rightarrow> string list \<Rightarrow> string list \<Rightarrow> value proc list" where
  "tasks roPg rwPg UPLOAD_TYPES PIN_STATUSES =
     [withTimeLog ''updateUsersCount'' (\<lambda>_. updateUsersCount roPg rwPg),
      withTimeLog ''updateContentRootDagSizeSum'' (\<lambda>_. updateContentRootDagSizeSum roPg rwPg),
      withTimeLog ''updateUploadsCount'' (\<lambda>_. updateUploadsCount roPg rwPg None)]
     @ map (\<lambda>t. withTimeLog (''updateUploadsCount['' @ t @ '']'')
                  (\<lambda>_. updateUploadsCount roPg rwPg (Some t))) UPLOAD_TYPES
     @ [withTimeLog ''updatePinsCount'' (\<lambda>_. updatePinsCount roPg rwPg None)]
     @ map (\<lambda>s. withTimeLog (''updatePinsCount['' @ s @ '']'')
                  (\<lambda>_. updatePinsCount roPg rwPg (Some s))) PIN_STATUSES
     @ [withTimeLog ''updatePinRequestsCount'' (\<lambda>_. updatePinRequestsCount roPg rwPg)]"

definition array :: "handle \<Rightarrow> handle \<Rightarrow> nat \<Rightarrow> string list \<Rightarrow> string list \<Rightarrow> value element list" where
  "array roPg rwPg MAX_CONCURRENT_QUERIES UPLOAD_TYPES PIN_STATUSES =
     map Promise (tasks roPg rwPg UPLOAD_TYPES PIN_STATUSES)
     @ [Plain (VOptions MAX_CONCURRENT_QUERIES)]"

text \<open>
  \<open>updateMetrics\<close> called at time \<open>t0\<close>, under a schedule of replies: what is
  observed, and how the call ends; \<open>None\<close> while \<open>await settle(...)\<close> still waits.
\<close>

definition updateMetrics ::
  "handle \<Rightarrow> handle \<Rightarrow> nat \<Rightarrow> string list \<Rightarrow> string list \<Rightarrow> int \<Rightarrow> (nat \<times> reply \<times> int) list
     \<Rightarrow> event list \<times> completion option" where
  "updateMetrics roPg rwPg MAX_CONCURRENT_QUERIES UPLOAD_TYPES PIN_STATUSES t0 sched =
     (case run sched (construct (array roPg rwPg MAX_CONCURRENT_QUERIES UPLOAD_TYPES PIN_STATUSES) t0) of
        (ev, sts) \<Rightarrow>
          (case settle sts of
             None \<Rightarrow> (ev, None)
           | Some results \<Rightarrow> (case finish results of (es, c) \<Rightarrow> (ev @ es, Some c))))"

section \<open>Notions used to state the properties\<close>

text \<open>The reasons of the rejected outcomes, in the order of the list.\<close>

fun reasons :: "'a outcome list \<Rightarrow> jsval list" where
  "reasons [] = []"
| "reasons (Fulfilled v # rs) = reasons rs"
| "reasons (Rejected e # rs) = e # reasons rs"

fun is_rejected :: "'a tstate \<Rightarrow> bool" where
  "is_rejected (Settled (Rejected e)) = True"
| "is_rejected st = False"

text \<open>A string of decimal digits.\<close>

definition is_decimal :: "string \<Rightarrow> bool" where
  "is_decimal s = (s \<noteq> [] \<and> list_all (\<lambda>c. c \<in> set ''0123456789'') s)"

text \<open>The replies of a schedule that are addressed to element \<open>j\<close>, in their order.\<close>

fun for_task :: "nat \<Rightarrow> (nat \<times> reply \<times> int) list \<Rightarrow> (reply \<times> int) list" where
  "for_task j [] = []"
| "for_task j ((i, r, t) # ds) = (if i = j then (r, t) # for_task j ds else for_task j ds)"

section \<open>The reduction of the outcomes\<close>

lemmas fn_defs = exec_def updateUsersCount_def updateContentRootDagSizeSum_def
  updateUploadsCount_def uploads_overall_def uploads_per_type_def updatePinsCount_def
  pins_overall_def pins_per_status_def updatePinRequestsCount_def publish_def publish_return_def

lemma reduce_events: "fst (reduce rs e) = map ConsoleError (reasons rs)"
  by (induction rs e rule: reduce.induct) (auto split: prod.splits)

lemma reduce_error:
  "snd (reduce rs e) =
     (if truthy e then e
      else case find truthy (reasons rs) of Some x \<Rightarrow> x | None \<Rightarrow> last (e # reasons rs))"
  by (induction rs e rule: reduce.induct) (auto split: prod.splits option.splits simp: js_or_def)

lemma find_none_last: "\<not> truthy e \<Longrightarrow> find truthy xs = None \<Longrightarrow> \<not> truthy (last (e # xs))"
proof (induction xs arbitrary: e)
  case Nil
  then show ?case by simp
next
  case (Cons a xs)
  have a: "\<not> truthy a" using Cons.prems(2) by (cases "truthy a") simp_all
  then have "find truthy xs = None" using Cons.prems(2) by simp
  then have "\<not> truthy (last (a # xs))" using Cons.IH a by blast
  then show ?case by simp
qed

lemma find_some_truthy: "find truthy xs = Some x \<Longrightarrow> truthy x"
  by (induction xs) (auto split: if_splits)

lemma finish_eq:
  "finish results =
     (case find truthy (reasons results) of
        Some x \<Rightarrow> (map ConsoleError (reasons results), Thrown x)
      | None \<Rightarrow> (map ConsoleError (reasons results) @ [Logged done_marker], Returned))"
proof -
  obtain es e where r: "reduce results JUndefined = (es, e)"
    by (cases "reduce results JUndefined")
  have es: "es = map ConsoleError (reasons results)"
    using reduce_events [of results JUndefined] r by simp
  have e: "e = (case find truthy (reasons results) of
                  Some x \<Rightarrow> x | None \<Rightarrow> last (JUndefined # reasons results))"
    using reduce_error [of results JUndefined] r by simp
  show ?thesis
  proof (cases "find truthy (reasons results)")
    case None
    then have "\<not> truthy e"
      using e find_none_last [of JUndefined "reasons results"] by simp
    then show ?thesis using None r es by (simp add: finish_def)
  next
    case (Some x)
    then have "truthy e" "e = x" using e find_some_truthy by auto
    then show ?thesis using Some r es by (simp add: finish_def)
  qed
qed

text \<open>
  C10: \<open>updateMetrics\<close> throws exactly when some rejected outcome has a truthy reason,
  and then it throws the first truthy reason in the order of submission. Every reason is
  written with \<open>console.error\<close>; when no reason is truthy the call logs the completion
  marker and returns, also when outcomes were rejected with falsy reasons.
\<close>

theorem updateMetrics_throws_first_truthy_reason:
  "updateMetrics roPg rwPg C UT PS start sched =
     (case run sched (construct (array roPg rwPg C UT PS) start) of
        (ev, sts) \<Rightarrow>
          (case settle sts of
             None \<Rightarrow> (ev, None)
           | Some results \<Rightarrow>
               (case find truthy (reasons results) of
                  Some x \<Rightarrow> (ev @ map ConsoleError (reasons results), Some (Thrown x))
                | None \<Rightarrow>
                    (ev @ map ConsoleError (reasons results) @ [Logged done_marker],
                     Some Returned))))"
  by (simp add: updateMetrics_def finish_eq split: prod.splits option.splits)

text \<open>
  C3, as amended: every rejected outcome's reason is written to the error log; when the
  reason of the first rejected outcome is truthy, the error thrown is exactly that reason;
  with no rejected outcome nothing is thrown and the completion marker is logged.
\<close>

theorem reduction_logs_all_throws_first:
  "(\<exists>tl c. finish results = (map ConsoleError (reasons results) @ tl, c))
   \<and> (reasons results = r # rest \<and> truthy r \<longrightarrow>
        finish results = (map ConsoleError (r # rest), Thrown r))
   \<and> (reasons results = [] \<longrightarrow> finish results = ([Logged done_marker], Returned))"
  by (cases "find truthy (reasons results)") (auto simp: finish_eq dest: find_some_truthy)

theorem reduction_logs_all_throws_first_witness:
  "reasons [Fulfilled VUndefined, Rejected (JError ''boom''), Rejected JNull]
     = JError ''boom'' # [JNull]
   \<and> truthy (JError ''boom'')
   \<and> finish [Fulfilled VUndefined, Rejected (JError ''boom''), Rejected JNull]
     = ([ConsoleError (JError ''boom''), ConsoleError JNull], Thrown (JError ''boom''))"
  using reduction_logs_all_throws_first
    [of "[Fulfilled VUndefined, Rejected (JError ''boom''), Rejected JNull]"
        "JError ''boom''" "[JNull]"]
  by simp

text \<open>
  The claim as written fails when the first rejection carries a falsy reason: the read of
  the first task is rejected with \<open>undefined\<close>, every other task succeeds, and
  \<open>updateMetrics\<close> returns normally.
\<close>

theorem updateMetrics_falsy_reason_returns:
  "updateMetrics ReadPool WritePool 1 [] [] 0
     [(0, Failed JUndefined, 1),
      (1, Rows [[(''total'', JStr ''7'')]], 2), (1, Rows [], 3),
      (2, Rows [[(''total'', JStr ''7'')]], 4), (2, Rows [], 5),
      (3, Rows [[(''total'', JStr ''7'')]], 6), (3, Rows [], 7),
      (4, Rows [[(''total'', JStr ''7'')]], 8), (4, Rows [], 9)]
   = ([Issued ReadPool COUNT_USERS [], Issued ReadPool SUM_CONTENT_DAG_SIZE [],
       Issued ReadPool COUNT_UPLOADS [], Issued ReadPool COUNT_PINS [],
       Issued ReadPool COUNT_PIN_REQUESTS [],
       Logged ''updateUsersCount took: 1ms'',
       Issued WritePool UPDATE_METRIC [JStr ''content_bytes_total'', JStr ''7''],
       Logged ''updateContentRootDagSizeSum took: 3ms'',
       Issued WritePool UPDATE_METRIC [JStr ''uploads_total'', JStr ''7''],
       Logged ''updateUploadsCount took: 5ms'',
       Issued WritePool UPDATE_METRIC [JStr ''pins_total'', JStr ''7''],
       Logged ''updatePinsCount took: 7ms'',
       Issued WritePool UPDATE_METRIC [JStr ''pin_requests_total'', JStr ''7''],
       Logged ''updatePinRequestsCount took: 9ms'',
       ConsoleError JUndefined,
       Logged done_marker],
      Some Returned)"
  by (simp add: updateMetrics_def run_def array_def tasks_def withTimeLog_def fn_defs
      finish_def js_or_def row_total_def dec_def digits.simps digit_def)

section \<open>The timing wrapper\<close>

lemma sync_finally:
  "sync (finally_log name start p) t =
     (case sync p t of
        (es, Settled out) \<Rightarrow>
          (es @ [Logged (name @ '' took: '' @ dec (t - start) @ ''ms'')], Settled out)
      | (es, Waiting k) \<Rightarrow> (es, Waiting (\<lambda>r. finally_log name start (k r))))"
  by (induction p) (auto split: prod.splits tstate.splits)

lemma drive_finally:
  "drive (Waiting (\<lambda>r. finally_log name start (k r))) t rs =
     (case drive (Waiting k) t rs of
        (es, Settled out, tf) \<Rightarrow>
          (es @ [Logged (name @ '' took: '' @ dec (tf - start) @ ''ms'')], Settled out, tf)
      | (es, Waiting k', tf) \<Rightarrow> (es, Waiting (\<lambda>r. finally_log name start (k' r)), tf))"
proof (induction rs arbitrary: k t)
  case Nil
  then show ?case by simp
next
  case (Cons a rs)
  obtain r t' where a: "a = (r, t')" by (cases a)
  obtain es st where s: "sync (k r) t' = (es, st)" by (cases "sync (k r) t'")
  show ?case
  proof (cases st)
    case (Waiting k')
    then show ?thesis using a s Cons.IH [of k' t']
      by (simp add: sync_finally split: prod.splits tstate.splits)
  next
    case (Settled out)
    then show ?thesis using a s by (simp add: sync_finally)
  qed
qed

text \<open>
  C8: \<open>withTimeLog(name, fn)\<close> behaves as \<open>fn()\<close> does and, once \<open>fn()\<close> has
  settled, writes one timing line with the name and the time elapsed since the call;
  the outcome is the one of \<open>fn()\<close>: the same value when it resolves, the same error
  when it rejects. While \<open>fn()\<close> is pending no timing line is written.
\<close>

theorem withTimeLog_logs_once_and_keeps_outcome:
  "exec (withTimeLog name fn) start rs =
     (case exec (fn ()) start rs of
        (es, Settled out, tf) \<Rightarrow>
          (es @ [Logged (name @ '' took: '' @ dec (tf - start) @ ''ms'')], Settled out, tf)
      | (es, Waiting k, tf) \<Rightarrow> (es, Waiting (\<lambda>r. finally_log name start (k r)), tf))"
proof -
  obtain es st where s: "sync (fn ()) start = (es, st)" by (cases "sync (fn ()) start")
  show ?thesis
  proof (cases st)
    case (Waiting k)
    then show ?thesis using s drive_finally [of name start k start rs]
      by (simp add: exec_def withTimeLog_def sync_finally split: prod.splits tstate.splits)
  next
    case (Settled out)
    then show ?thesis using s
      by (simp add: exec_def withTimeLog_def sync_finally)
  qed
qed

section \<open>The metric functions\<close>

lemma pins_name_differs: "s \<noteq> [] \<Longrightarrow> ''pins_'' @ toLowerCase s @ ''_total'' \<noteq> ''pins_total''"
  by (cases s) (simp_all add: toLowerCase_def)

lemma uploads_name_differs: "''uploads_'' @ toLowerCase t @ ''_total'' \<noteq> ''uploads_total''"
  by (cases t) (simp_all add: toLowerCase_def)

lemma uploads_zero_rows:
  "is_rejected (fst (snd (exec (updateUploadsCount ro rw type) start ((Rows [], ta) # rest))))
   \<and> writes (fst (exec (updateUploadsCount ro rw type) start ((Rows [], ta) # rest))) = []"
  by (simp add: fn_defs split: option.splits)

lemma pins_zero_rows:
  "is_rejected (fst (snd (exec (updatePinsCount ro rw status) start ((Rows [], ta) # rest))))
   \<and> writes (fst (exec (updatePinsCount ro rw status) start ((Rows [], ta) # rest))) = []"
  by (simp add: fn_defs split: option.splits)

lemma pins_overall_zero_rows:
  "s \<noteq> [] \<Longrightarrow>
   exec (updatePinsCount ro rw (Some s)) start
     ((Rows (row # more), ta) # (Rows w, tb) # (Rows [], tc) # rest)
   = ([Issued ro COUNT_PINS_PER_STATUS [JStr s],
       Issued rw UPDATE_METRIC [JStr (''pins_'' @ toLowerCase s @ ''_total''), row_total row],
       Issued ro COUNT_PINS []],
      Settled (Rejected (JError ''no rows returned counting pins'')), tc)"
  by (simp add: fn_defs)

text \<open>
  C5: when a read query of a metric function returns zero rows, the function rejects with
  an error and issues no write for the metric of that query. For \<open>updatePinsCount\<close> with
  a status this holds for both of its reads: when the count of all pins returns zero rows
  the per-status metric has been written, and \<open>pins_total\<close> is not.
\<close>

theorem zero_rows_rejects_without_write:
  "exec (updateUsersCount ro rw) start ((Rows [], ta) # rest)
     = ([Issued ro COUNT_USERS []],
        Settled (Rejected (JError ''no rows returned counting users'')), ta)
   \<and> exec (updateContentRootDagSizeSum ro rw) start ((Rows [], ta) # rest)
     = ([Issued ro SUM_CONTENT_DAG_SIZE []],
        Settled (Rejected (JError ''no rows returned counting users'')), ta)
   \<and> is_rejected (fst (snd (exec (updateUploadsCount ro rw type) start ((Rows [], ta) # rest))))
   \<and> writes (fst (exec (updateUploadsCount ro rw type) start ((Rows [], ta) # rest))) = []
   \<and> is_rejected (fst (snd (exec (updatePinsCount ro rw status) start ((Rows [], ta) # rest))))
   \<and> writes (fst (exec (updatePinsCount ro rw status) start ((Rows [], ta) # rest))) = []
   \<and> (s \<noteq> [] \<longrightarrow>
        exec (updatePinsCount ro rw (Some s)) start
          ((Rows (row # more), ta) # (Rows w, tb) # (Rows [], tc) # rest)
        = ([Issued ro COUNT_PINS_PER_STATUS [JStr s],
            Issued rw UPDATE_METRIC [JStr (''pins_'' @ toLowerCase s @ ''_total''), row_total row],
            Issued ro COUNT_PINS []],
           Settled (Rejected (JError ''no rows returned counting pins'')), tc)
        \<and> ''pins_'' @ toLowerCase s @ ''_total'' \<noteq> ''pins_total'')
   \<and> exec (updatePinRequestsCount ro rw) start ((Rows [], ta) # rest)
     = ([Issued ro COUNT_PIN_REQUESTS []],
        Settled (Rejected (JError ''no rows returned counting pin requests'')), ta)"
proof -
  have users: "exec (updateUsersCount ro rw) start ((Rows [], ta) # rest)
     = ([Issued ro COUNT_USERS []],
        Settled (Rejected (JError ''no rows returned counting users'')), ta)"
    by (simp add: exec_def updateUsersCount_def)
  have dag: "exec (updateContentRootDagSizeSum ro rw) start ((Rows [], ta) # rest)
     = ([Issued ro SUM_CONTENT_DAG_SIZE []],
        Settled (Rejected (JError ''no rows returned counting users'')), ta)"
    by (simp add: exec_def updateContentRootDagSizeSum_def)
  have reqs: "exec (updatePinRequestsCount ro rw) start ((Rows [], ta) # rest)
     = ([Issued ro COUNT_PIN_REQUESTS []],
        Settled (Rejected (JError ''no rows returned counting pin requests'')), ta)"
    by (simp add: exec_def updatePinRequestsCount_def)
  show ?thesis
    using users dag reqs uploads_zero_rows [of ro rw type start ta rest]
      pins_zero_rows [of ro rw status start ta rest]
      pins_overall_zero_rows [of s ro rw start row more ta w tb tc rest]
      pins_name_differs [of s]
    by blast
qed

theorem zero_rows_rejects_without_write_witness:
  "''Pinned'' \<noteq> []
   \<and> exec (updatePinsCount ReadPool WritePool (Some ''Pinned'')) 0
        [(Rows [[(''total'', JStr ''3'')]], 1), (Rows [], 2), (Rows [], 3)]
      = ([Issued ReadPool COUNT_PINS_PER_STATUS [JStr ''Pinned''],
          Issued WritePool UPDATE_METRIC [JStr ''pins_pinned_total'', JStr ''3''],
          Issued ReadPool COUNT_PINS []],
         Settled (Rejected (JError ''no rows returned counting pins'')), 3)"
  using zero_rows_rejects_without_write
    [where s = "''Pinned''" and ro = ReadPool and rw = WritePool and start = 0
       and row = "[(''total'', JStr ''3'')]" and more = "[]" and ta = 1 and w = "[]"
       and tb = 2 and tc = 3 and rest = "[]"]
  by (simp add: toLowerCase_def lower_char_def row_total_def)

lemma uploads_per_type_write:
  "ty \<noteq> [] \<Longrightarrow>
   writes (fst (exec (updateUploadsCount ro rw (Some ty)) start ((Rows (row # more), ta) # rest)))
   = [(JStr (''uploads_'' @ toLowerCase ty @ ''_total''), row_total row)]"
  by (cases rest) (auto simp add: fn_defs split: reply.splits prod.splits)

lemma pins_per_status_write:
  "s \<noteq> [] \<Longrightarrow>
   take 1 (writes (fst (exec (updatePinsCount ro rw (Some s)) start ((Rows (row # more), ta) # rest))))
   = [(JStr (''pins_'' @ toLowerCase s @ ''_total''), row_total row)]"
  by (simp add: fn_defs split: reply.splits prod.splits)

text \<open>
  C6, as amended: for every upload type \<open>ty\<close> that is not the empty string, the metric
  published by \<open>updateUploadsCount\<close> with \<open>{type: ty}\<close> is named
  \<open>uploads_\<close>, the type in lower case, \<open>_total\<close> (\<open>Nft\<close> gives
  \<open>uploads_nft_total\<close>); for every pin status \<open>s\<close> that is not the empty string, the
  first metric published by \<open>updatePinsCount\<close> with \<open>{status: s}\<close> is named
  \<open>pins_\<close>, the status in lower case, \<open>_total\<close>.
\<close>

theorem category_metric_names:
  "(ty \<noteq> [] \<longrightarrow>
      writes (fst (exec (updateUploadsCount ro rw (Some ty)) start ((Rows (row # more), ta) # rest)))
      = [(JStr (''uploads_'' @ toLowerCase ty @ ''_total''), row_total row)])
   \<and> (s \<noteq> [] \<longrightarrow>
      take 1 (writes (fst (exec (updatePinsCount ro rw (Some s)) start ((Rows (row # more), ta) # rest))))
      = [(JStr (''pins_'' @ toLowerCase s @ ''_total''), row_total row)])
   \<and> writes (fst (exec (updateUploadsCount ro rw (Some ''Nft'')) start ((Rows (row # more), ta) # rest)))
      = [(JStr ''uploads_nft_total'', row_total row)]"
  using uploads_per_type_write [of ty ro rw start row more ta rest]
    pins_per_status_write [of s ro rw start row more ta rest]
    uploads_per_type_write [of "''Nft''" ro rw start row more ta rest]
  by (simp add: toLowerCase_def lower_char_def)

theorem category_metric_names_witness:
  "''Car'' \<noteq> [] \<and> ''Pinned'' \<noteq> []
   \<and> writes (fst (exec (updateUploadsCount ReadPool WritePool (Some ''Car'')) 0
        [(Rows [[(''total'', JStr ''12'')]], 1)]))
      = [(JStr ''uploads_car_total'', JStr ''12'')]
   \<and> take 1 (writes (fst (exec (updatePinsCount ReadPool WritePool (Some ''Pinned'')) 0
        [(Rows [[(''total'', JStr ''12'')]], 1)])))
      = [(JStr ''pins_pinned_total'', JStr ''12'')]"
  using category_metric_names
    [where ty = "''Car''" and s = "''Pinned''" and ro = ReadPool and rw = WritePool
       and start = 0 and row = "[(''total'', JStr ''12'')]" and more = "[]" and ta = 1
       and rest = "[]"]
  by (simp add: toLowerCase_def lower_char_def row_total_def)

text \<open>
  The claim as written fails for the empty string: \<open>if (type)\<close> takes it for an absent
  option, and the metric published is \<open>uploads_total\<close>, not \<open>uploads__total\<close>.
\<close>

theorem empty_type_publishes_uploads_total:
  "writes (fst (exec (updateUploadsCount ReadPool WritePool (Some [])) 0
     [(Rows [[(''total'', JStr ''3'')]], 1)]))
   = [(JStr ''uploads_total'', JStr ''3'')]
   \<and> ''uploads_'' @ toLowerCase [] @ ''_total'' = ''uploads__total''"
  by (simp add: fn_defs row_total_def toLowerCase_def)

lemma pins_per_status_success:
  assumes "s \<noteq> []"
    and "fst (snd (exec (updatePinsCount ro rw (Some s)) start replies)) = Settled (Fulfilled v)"
  shows "\<exists>rowa rowb. fst (exec (updatePinsCount ro rw (Some s)) start replies) =
           [Issued ro COUNT_PINS_PER_STATUS [JStr s],
            Issued rw UPDATE_METRIC [JStr (''pins_'' @ toLowerCase s @ ''_total''), row_total rowa],
            Issued ro COUNT_PINS [],
            Issued rw UPDATE_METRIC [JStr ''pins_total'', row_total rowb]]"
proof -
  obtain a rs1 where 1: "replies = a # rs1"
    using assms by (cases replies) (auto simp: fn_defs)
  obtain b rs2 where 2: "rs1 = b # rs2"
    using assms 1 by (cases rs1; cases a) (auto simp: fn_defs split: reply.splits list.splits)
  obtain c rs3 where 3: "rs2 = c # rs3"
    using assms 1 2
    by (cases rs2; cases a; cases b) (auto simp: fn_defs split: reply.splits list.splits)
  obtain d rs4 where 4: "rs3 = d # rs4"
    using assms 1 2 3
    by (cases rs3; cases a; cases b; cases c)
      (auto simp: fn_defs split: reply.splits list.splits)
  show ?thesis
    using assms 1 2 3 4
    by (cases a; cases b; cases c; cases d) (auto simp: fn_defs split: reply.splits list.splits)
qed

lemma uploads_per_type_success:
  assumes "ty \<noteq> []"
    and "fst (snd (exec (updateUploadsCount ro rw (Some ty)) start replies)) = Settled (Fulfilled v)"
  shows "\<exists>rowa. fst (exec (updateUploadsCount ro rw (Some ty)) start replies) =
           [Issued ro COUNT_UPLOADS_PER_TYPE [JStr ty],
            Issued rw UPDATE_METRIC [JStr (''uploads_'' @ toLowerCase ty @ ''_total''), row_total rowa]]"
proof -
  obtain a rs1 where 1: "replies = a # rs1"
    using assms by (cases replies) (auto simp: fn_defs)
  obtain b rs2 where 2: "rs1 = b # rs2"
    using assms 1 by (cases rs1; cases a) (auto simp: fn_defs split: reply.splits list.splits)
  show ?thesis
    using assms 1 2 by (cases a; cases b) (auto simp: fn_defs split: reply.splits list.splits)
qed

text \<open>
  C7, as amended: for every pin status \<open>s\<close> that is not the empty string, a successful
  run of \<open>updatePinsCount\<close> with \<open>{status: s}\<close> issues, in this order, the per-status
  count, the write of the per-status metric, the count of all pins and the write of
  \<open>pins_total\<close>; for every upload type \<open>ty\<close> that is not the empty string, a
  successful run of \<open>updateUploadsCount\<close> with \<open>{type: ty}\<close> issues the per-type
  count and the one write of the per-type metric, whose name is not \<open>uploads_total\<close>.
\<close>

theorem pins_writes_twice_uploads_once:
  "(s \<noteq> [] \<and> fst (snd (exec (updatePinsCount ro rw (Some s)) start replies)) = Settled (Fulfilled v)
      \<longrightarrow> (\<exists>rowa rowb. fst (exec (updatePinsCount ro rw (Some s)) start replies) =
             [Issued ro COUNT_PINS_PER_STATUS [JStr s],
              Issued rw UPDATE_METRIC [JStr (''pins_'' @ toLowerCase s @ ''_total''), row_total rowa],
              Issued ro COUNT_PINS [],
              Issued rw UPDATE_METRIC [JStr ''pins_total'', row_total rowb]]))
   \<and> (ty \<noteq> [] \<and> fst (snd (exec (updateUploadsCount ro rw (Some ty)) start replies')) = Settled (Fulfilled v')
      \<longrightarrow> (\<exists>rowa. fst (exec (updateUploadsCount ro rw (Some ty)) start replies') =
             [Issued ro COUNT_UPLOADS_PER_TYPE [JStr ty],
              Issued rw UPDATE_METRIC [JStr (''uploads_'' @ toLowerCase ty @ ''_total''), row_total rowa]])
          \<and> ''uploads_'' @ toLowerCase ty @ ''_total'' \<noteq> ''uploads_total'')"
  using pins_per_status_success [of s ro rw start replies v]
    uploads_per_type_success [of ty ro rw start replies' v']
    uploads_name_differs [of ty]
  by blast

theorem pins_writes_twice_uploads_once_witness:
  "''Pinned'' \<noteq> [] \<and> ''Car'' \<noteq> []
   \<and> exec (updatePinsCount ReadPool WritePool (Some ''Pinned'')) 0
        [(Rows [[(''total'', JStr ''5'')]], 1), (Rows [], 2),
         (Rows [[(''total'', JStr ''9'')]], 3), (Rows [], 4)]
      = ([Issued ReadPool COUNT_PINS_PER_STATUS [JStr ''Pinned''],
          Issued WritePool UPDATE_METRIC [JStr ''pins_pinned_total'', JStr ''5''],
          Issued ReadPool COUNT_PINS [],
          Issued WritePool UPDATE_METRIC [JStr ''pins_total'', JStr ''9'']],
         Settled (Fulfilled VUndefined), 4)
   \<and> exec (updateUploadsCount ReadPool WritePool (Some ''Car'')) 0
        [(Rows [[(''total'', JStr ''5'')]], 1), (Rows [], 2)]
      = ([Issued ReadPool COUNT_UPLOADS_PER_TYPE [JStr ''Car''],
          Issued WritePool UPDATE_METRIC [JStr ''uploads_car_total'', JStr ''5'']],
         Settled (Fulfilled (VResult [])), 2)"
  using pins_writes_twice_uploads_once
    [where s = "''Pinned''" and ty = "''Car''" and ro = ReadPool and rw = WritePool
       and start = 0 and v = VUndefined and v' = "VResult []"
       and replies = "[(Rows [[(''total'', JStr ''5'')]], 1), (Rows [], 2),
                       (Rows [[(''total'', JStr ''9'')]], 3), (Rows [], 4)]"
       and replies' = "[(Rows [[(''total'', JStr ''5'')]], 1), (Rows [], 2)]"]
  by (simp add: fn_defs toLowerCase_def lower_char_def row_total_def)

text \<open>
  The claim as written fails for the empty string: \<open>if (status)\<close> takes it for an
  absent option, and a successful run writes \<open>pins_total\<close> alone.
\<close>

theorem empty_status_writes_once:
  "exec (updatePinsCount ReadPool WritePool (Some [])) 0
     [(Rows [[(''total'', JStr ''4'')]], 1), (Rows [], 2)]
   = ([Issued ReadPool COUNT_PINS [],
       Issued WritePool UPDATE_METRIC [JStr ''pins_total'', JStr ''4'']],
      Settled (Fulfilled VUndefined), 2)"
  by (simp add: fn_defs row_total_def)

lemma dag_size_write:
  "writes (fst (exec (updateContentRootDagSizeSum ro rw) start ((Rows (row # more), ta) # rest)))
   = [(JStr ''content_bytes_total'', JStr (js_String (row_total row)))]"
  by (cases rest) (auto simp add: fn_defs split: reply.splits prod.splits)

lemma digits_decimal: "is_decimal (digits n)"
proof (induction n rule: digits.induct)
  case (1 n)
  have d: "m < 10 \<Longrightarrow> digit m \<in> set ''0123456789''" for m
    unfolding digit_def by (rule nth_mem) simp
  show ?case
  proof (cases "n < 10")
    case True
    then show ?thesis using d [of n] by (subst digits.simps) (simp add: is_decimal_def)
  next
    case False
    then show ?thesis using 1 d [of "n mod 10"]
      by (subst digits.simps) (simp add: is_decimal_def)
  qed
qed

text \<open>
  C9, as amended: for every non-empty read result, \<open>updateContentRootDagSizeSum\<close>
  publishes the metric \<open>content_bytes_total\<close> with the value
  \<open>String(rows[0].total)\<close>, a string; when \<open>rows[0].total\<close> is a string of decimal
  digits, of any length, the value published is that same string, so that a sum of
  any size is carried as it is.
\<close>

theorem dag_size_published_as_string:
  "writes (fst (exec (updateContentRootDagSizeSum ro rw) start ((Rows (row # more), ta) # rest)))
     = [(JStr ''content_bytes_total'', JStr (js_String (row_total row)))]
   \<and> (row_total row = JStr (digits n) \<longrightarrow>
        writes (fst (exec (updateContentRootDagSizeSum ro rw) start ((Rows (row # more), ta) # rest)))
          = [(JStr ''content_bytes_total'', JStr (digits n))]
        \<and> is_decimal (digits n))"
  using dag_size_write [of ro rw start row more ta rest] digits_decimal [of n]
  by simp

theorem dag_size_published_as_string_witness:
  "row_total [(''total'', JStr ''18446744073709551616'')] = JStr (digits 18446744073709551616)
   \<and> writes (fst (exec (updateContentRootDagSizeSum ReadPool WritePool) 0
        [(Rows [[(''total'', JStr ''18446744073709551616'')]], 1)]))
      = [(JStr ''content_bytes_total'', JStr ''18446744073709551616'')]
   \<and> is_decimal ''18446744073709551616''"
  using dag_size_published_as_string
    [where row = "[(''total'', JStr ''18446744073709551616'')]" and n = 18446744073709551616
       and ro = ReadPool and rw = WritePool and start = 0 and more = "[]" and ta = 1
       and rest = "[]"]
  by (simp add: row_total_def digits.simps digit_def)

text \<open>
  The claim as written fails for a sum over no rows, which SQL returns as one row holding
  \<open>NULL\<close>: the value published is the string \<open>null\<close>, which is not a decimal string.
\<close>

theorem null_sum_published_as_null_string:
  "writes (fst (exec (updateContentRootDagSizeSum ReadPool WritePool) 0
     [(Rows [[(''total'', JNull)]], 1)]))
   = [(JStr ''content_bytes_total'', JStr ''null'')]
   \<and> \<not> is_decimal ''null''"
  by (simp add: fn_defs row_total_def is_decimal_def)

section \<open>The tasks under the event loop\<close>

lemma deliver_length: "length (snd (deliver d s)) = length (snd s)"
  by (cases d; cases s) (auto split: tstate.splits prod.splits)

lemma deliver_other: "i \<noteq> j \<Longrightarrow> snd (deliver (i, r, t) (ev, sts)) ! j = sts ! j"
  by (auto split: tstate.splits prod.splits)

lemma run_length: "length (snd (run sched s)) = length (snd s)"
  unfolding run_def by (induction sched arbitrary: s) (simp_all add: deliver_length)

lemma drive_time: "fst (snd (drive st t rs)) = fst (snd (drive st t' rs))"
  by (cases st; cases rs) (auto split: prod.splits)

lemma exec_state: "fst (snd (exec p t rs)) = fst (snd (drive (snd (sync p t)) t rs))"
  by (simp add: exec_def split: prod.splits)

text \<open>
  After any schedule, the state of an element is the one it reaches alone under the
  replies addressed to it: what happens to the other elements does not matter.
\<close>

lemma run_isolated:
  "j < length sts \<Longrightarrow>
   snd (run sched (ev, sts)) ! j = fst (snd (drive (sts ! j) t (for_task j sched)))"
proof (induction sched arbitrary: ev sts t)
  case Nil
  then show ?case by (cases "sts ! j") (simp_all add: run_def)
next
  case (Cons d sched)
  obtain i r t' where d: "d = (i, r, t')" by (cases d)
  obtain ev' sts' where s': "deliver d (ev, sts) = (ev', sts')"
    by (cases "deliver d (ev, sts)")
  have len: "length sts' = length sts" using deliver_length [of d "(ev, sts)"] s' by simp
  have step: "snd (run (d # sched) (ev, sts)) ! j
              = fst (snd (drive (sts' ! j) t' (for_task j sched)))"
    using Cons.IH [of sts' ev' t'] Cons.prems len s' by (simp add: run_def)
  show ?case
  proof (cases "i = j")
    case False
    then have "sts' ! j = sts ! j" using deliver_other [of i j r t' ev sts] s' d by simp
    then show ?thesis
      using step False d drive_time [of "sts ! j" t' "for_task j sched" t] by simp
  next
    case True
    show ?thesis
    proof (cases "sts ! j")
      case (Settled out)
      then have "sts' ! j = sts ! j" using s' d True Cons.prems by auto
      then show ?thesis using step Settled by simp
    next
      case (Waiting k)
      obtain es st where sy: "sync (k r) t' = (es, st)" by (cases "sync (k r) t'")
      then have "sts' ! j = st" using s' d True Cons.prems Waiting by auto
      then show ?thesis using step Waiting sy d True by (simp split: prod.splits)
    qed
  qed
qed

lemma settle_none_waiting: "j < length sts \<Longrightarrow> is_waiting (sts ! j) \<Longrightarrow> settle sts = None"
proof (induction sts arbitrary: j rule: settle.induct)
  case 1
  then show ?case by simp
next
  case (2 k sts)
  then show ?case by simp
next
  case (3 out sts)
  then show ?case by (cases j) auto
qed

lemma settle_some: "settle sts = Some outs \<Longrightarrow> sts = map Settled outs"
  by (induction sts arbitrary: outs rule: settle.induct) (auto split: option.splits)

lemma construct_append:
  "construct (xs @ ys) t =
     (fst (construct xs t) @ fst (construct ys t), snd (construct xs t) @ snd (construct ys t))"
  by (induction xs t rule: construct.induct) (auto split: prod.splits)

lemma construct_promises_length: "length (snd (construct (map Promise ps) t)) = length ps"
  by (induction ps) (auto split: prod.splits)

lemma construct_promises_nth:
  "j < length ps \<Longrightarrow> snd (construct (map Promise ps) t) ! j = snd (sync (ps ! j) t)"
proof (induction ps arbitrary: j)
  case Nil
  then show ?case by simp
next
  case (Cons p ps)
  then show ?case by (cases j) (auto split: prod.splits)
qed

lemma construct_promises_in_flight:
  "list_all (\<lambda>p. is_waiting (snd (sync p t))) ps \<Longrightarrow>
   in_flight (snd (construct (map Promise ps) t)) = length ps"
  by (induction ps) (auto simp: in_flight_def split: prod.splits)

lemma tasks_waiting: "list_all (\<lambda>p. is_waiting (snd (sync p t))) (tasks ro rw UT PS)"
  by (auto simp: tasks_def withTimeLog_def fn_defs list_all_iff split: option.splits)

lemma tasks_length: "length (tasks ro rw UT PS) = 5 + length UT + length PS"
  by (simp add: tasks_def)

lemma array_elements:
  "snd (construct (array ro rw C UT PS) start) =
     snd (construct (map Promise (tasks ro rw UT PS)) start) @ [Settled (Fulfilled (VOptions C))]"
  by (simp add: array_def construct_append)

text \<open>
  When the array literal has been evaluated, and before \<open>settle\<close> is called, every task
  has issued its first query and awaits the reply, whatever \<open>MAX_CONCURRENT_QUERIES\<close> is.
\<close>

lemma in_flight_at_construction:
  "in_flight (snd (construct (array ro rw C UT PS) start)) = 5 + length UT + length PS"
  using construct_promises_in_flight
    [OF tasks_waiting [where t = start and ro = ro and rw = rw and UT = UT and PS = PS]]
  by (simp add: array_elements tasks_length in_flight_def)

lemma task_state:
  assumes "j < length (tasks ro rw UT PS)"
  shows "snd (run sched (construct (array ro rw C UT PS) start)) ! j
         = fst (snd (exec (tasks ro rw UT PS ! j) start (for_task j sched)))"
proof -
  let ?sts = "snd (construct (array ro rw C UT PS) start)"
  have len: "j < length ?sts"
    using assms by (simp add: array_elements construct_promises_length)
  have nth: "?sts ! j = snd (sync (tasks ro rw UT PS ! j) start)"
    using assms
    by (simp add: array_elements nth_append construct_promises_length construct_promises_nth)
  have "snd (run sched (fst (construct (array ro rw C UT PS) start), ?sts)) ! j
        = fst (snd (drive (?sts ! j) start (for_task j sched)))"
    using len by (rule run_isolated)
  then show ?thesis using nth by (simp add: exec_state)
qed

lemma options_outcome:
  "snd (run sched (construct (array ro rw C UT PS) start)) ! length (tasks ro rw UT PS)
   = Settled (Fulfilled (VOptions C))"
proof -
  let ?sts = "snd (construct (array ro rw C UT PS) start)"
  let ?n = "length (tasks ro rw UT PS)"
  have len: "?n < length ?sts" by (simp add: array_elements construct_promises_length)
  have nth: "?sts ! ?n = Settled (Fulfilled (VOptions C))"
    by (simp add: array_elements nth_append construct_promises_length)
  have "snd (run sched (fst (construct (array ro rw C UT PS) start), ?sts)) ! ?n
        = fst (snd (drive (?sts ! ?n) start (for_task ?n sched)))"
    using len by (rule run_isolated)
  then show ?thesis using nth by simp
qed

text \<open>
  The list that the loop iterates has one outcome more than there are tasks: the last one
  is the options object, fulfilled with itself.
\<close>

lemma results_shape:
  assumes "settle (snd (run sched (construct (array ro rw C UT PS) start))) = Some results"
  shows "length results = length (tasks ro rw UT PS) + 1
         \<and> results ! length (tasks ro rw UT PS) = Fulfilled (VOptions C)"
proof -
  let ?sts = "snd (run sched (construct (array ro rw C UT PS) start))"
  have m: "?sts = map Settled results" using assms by (rule settle_some)
  have "length ?sts = length (tasks ro rw UT PS) + 1"
    by (simp add: run_length array_elements construct_promises_length)
  then have len: "length results = length (tasks ro rw UT PS) + 1" using m
    by (metis length_map)
  have "?sts ! length (tasks ro rw UT PS) = Settled (results ! length (tasks ro rw UT PS))"
    using m len by (metis add.commute less_add_one nth_map plus_1_eq_Suc lessI)
  then show ?thesis using len options_outcome [of sched ro rw C UT PS start] by simp
qed

text \<open>
  Every task settles once four replies have reached it (no metric function awaits more
  than four queries), whatever the replies are.
\<close>

lemma four_replies: "4 \<le> length rs \<Longrightarrow> \<exists>a b c d rest. rs = a # b # c # d # rest"
  by (auto simp: numeral_eq_Suc Suc_le_length_iff)

lemma withTimeLog_waiting:
  "is_waiting (fst (snd (exec (withTimeLog name fn) start rs)))
   = is_waiting (fst (snd (exec (fn ()) start rs)))"
proof -
  obtain es st where s: "sync (fn ()) start = (es, st)" by (cases "sync (fn ()) start")
  show ?thesis
  proof (cases st)
    case (Waiting k)
    then show ?thesis using s drive_finally [of name start k start rs]
      by (simp add: exec_def withTimeLog_def sync_finally split: prod.splits tstate.splits)
  next
    case (Settled out)
    then show ?thesis using s by (simp add: exec_def withTimeLog_def sync_finally)
  qed
qed

lemma users_settles:
  "4 \<le> length rs \<Longrightarrow> \<not> is_waiting (fst (snd (exec (updateUsersCount ro rw) start rs)))"
  by (drule four_replies) (auto simp: fn_defs split: reply.splits list.splits)

lemma dag_settles:
  "4 \<le> length rs \<Longrightarrow> \<not> is_waiting (fst (snd (exec (updateContentRootDagSizeSum ro rw) start rs)))"
  by (drule four_replies) (auto simp: fn_defs split: reply.splits list.splits)

lemma uploads_settles:
  "4 \<le> length rs \<Longrightarrow> \<not> is_waiting (fst (snd (exec (updateUploadsCount ro rw type) start rs)))"
  by (drule four_replies) (auto simp: fn_defs split: reply.splits list.splits option.splits)

lemma pins_settles:
  "4 \<le> length rs \<Longrightarrow> \<not> is_waiting (fst (snd (exec (updatePinsCount ro rw status) start rs)))"
  by (drule four_replies) (auto simp: fn_defs split: reply.splits list.splits option.splits)

lemma requests_settles:
  "4 \<le> length rs \<Longrightarrow> \<not> is_waiting (fst (snd (exec (updatePinRequestsCount ro rw) start rs)))"
  by (drule four_replies) (auto simp: fn_defs split: reply.splits list.splits)

lemma tasks_settle:
  "p \<in> set (tasks ro rw UT PS) \<Longrightarrow> 4 \<le> length rs \<Longrightarrow>
   \<not> is_waiting (fst (snd (exec p start rs)))"
  by (auto simp: tasks_def withTimeLog_waiting users_settles dag_settles uploads_settles
      pins_settles requests_settles)

text \<open>
  C4: the state of each task after any schedule of replies is the state that task reaches
  alone under the replies addressed to it, so that a rejection of one task neither stops
  nor changes another; every task is started when the array is built; a task settles
  once its own replies have arrived; and \<open>updateMetrics\<close> does not go on to the
  reduction while a task is still pending.
\<close>

theorem updateMetrics_isolates_failures:
  "(j < length (tasks ro rw UT PS) \<longrightarrow>
      snd (run sched (construct (array ro rw C UT PS) start)) ! j
      = fst (snd (exec (tasks ro rw UT PS ! j) start (for_task j sched))))
   \<and> (j < length (tasks ro rw UT PS) \<and> 4 \<le> length (for_task j sched) \<longrightarrow>
      \<not> is_waiting (snd (run sched (construct (array ro rw C UT PS) start)) ! j))
   \<and> (j < length (tasks ro rw UT PS)
        \<and> is_waiting (snd (run sched (construct (array ro rw C UT PS) start)) ! j) \<longrightarrow>
      snd (updateMetrics ro rw C UT PS start sched) = None)
   \<and> in_flight (snd (construct (array ro rw C UT PS) start)) = length (tasks ro rw UT PS)"
proof (intro conjI impI)
  assume "j < length (tasks ro rw UT PS)"
  then show "snd (run sched (construct (array ro rw C UT PS) start)) ! j
      = fst (snd (exec (tasks ro rw UT PS ! j) start (for_task j sched)))"
    by (rule task_state)
next
  assume j4: "j < length (tasks ro rw UT PS) \<and> 4 \<le> length (for_task j sched)"
  then have "tasks ro rw UT PS ! j \<in> set (tasks ro rw UT PS)" by simp
  then have "\<not> is_waiting (fst (snd (exec (tasks ro rw UT PS ! j) start (for_task j sched))))"
    using j4 tasks_settle by blast
  then show "\<not> is_waiting (snd (run sched (construct (array ro rw C UT PS) start)) ! j)"
    using j4 task_state [of j ro rw UT PS sched C start] by simp
next
  assume jw: "j < length (tasks ro rw UT PS)
        \<and> is_waiting (snd (run sched (construct (array ro rw C UT PS) start)) ! j)"
  then have "j < length (snd (run sched (construct (array ro rw C UT PS) start)))"
    by (simp add: run_length array_elements construct_promises_length)
  then have "settle (snd (run sched (construct (array ro rw C UT PS) start))) = None"
    using jw settle_none_waiting by blast
  then show "snd (updateMetrics ro rw C UT PS start sched) = None"
    by (cases "run sched (construct (array ro rw C UT PS) start)")
      (simp add: updateMetrics_def)
next
  show "in_flight (snd (construct (array ro rw C UT PS) start)) = length (tasks ro rw UT PS)"
    by (simp add: in_flight_at_construction tasks_length)
qed

theorem updateMetrics_isolates_failures_witness:
  "(1::nat) < length (tasks ReadPool WritePool [] [])
   \<and> snd (run [(0, Failed (JError ''boom''), 1),
                (1, Rows [[(''total'', JStr ''7'')]], 5), (1, Rows [], 9)]
          (construct (array ReadPool WritePool 1 [] []) 0)) ! 1
     = Settled (Fulfilled VUndefined)
   \<and> 4 \<le> length (for_task 1 [(1, Failed JNull, 1), (0, Failed JNull, 2), (1, Failed JNull, 3),
                                  (1, Failed JNull, 4), (1, Failed JNull, 5)])
   \<and> \<not> is_waiting (snd (run [(1, Failed JNull, 1), (0, Failed JNull, 2), (1, Failed JNull, 3),
                                 (1, Failed JNull, 4), (1, Failed JNull, 5)]
          (construct (array ReadPool WritePool 1 [] []) 0)) ! 1)
   \<and> (0::nat) < length (tasks ReadPool WritePool [] [])
   \<and> is_waiting (snd (run [(1, Failed (JError ''boom''), 1)]
          (construct (array ReadPool WritePool 1 [] []) 0)) ! 0)
   \<and> snd (updateMetrics ReadPool WritePool 1 [] [] 0 [(1, Failed (JError ''boom''), 1)]) = None"
proof -
  have a: "(1::nat) < length (tasks ReadPool WritePool [] [])" by (simp add: tasks_def)
  have b: "(0::nat) < length (tasks ReadPool WritePool [] [])" by (simp add: tasks_def)
  have w: "is_waiting (snd (run [(1, Failed (JError ''boom''), 1)]
          (construct (array ReadPool WritePool 1 [] []) 0)) ! 0)"
    by (simp add: run_def array_def tasks_def withTimeLog_def fn_defs)
  have f: "4 \<le> length (for_task 1 [(1, Failed JNull, 1), (0, Failed JNull, 2),
              (1, Failed JNull, 3), (1, Failed JNull, 4), (1, Failed JNull, 5)])"
    by simp
  have c: "snd (run [(0, Failed (JError ''boom''), 1),
                (1, Rows [[(''total'', JStr ''7'')]], 5), (1, Rows [], 9)]
          (construct (array ReadPool WritePool 1 [] []) 0)) ! 1
     = Settled (Fulfilled VUndefined)"
    using a updateMetrics_isolates_failures
      [where j = 1 and ro = ReadPool and rw = WritePool and UT = "[]" and PS = "[]"
         and C = 1 and start = 0
         and sched = "[(0, Failed (JError ''boom''), 1),
                (1, Rows [[(''total'', JStr ''7'')]], 5), (1, Rows [], 9)]"]
    by (simp add: tasks_def withTimeLog_def fn_defs)
  have d: "snd (updateMetrics ReadPool WritePool 1 [] [] 0 [(1, Failed (JError ''boom''), 1)]) = None"
    using b w updateMetrics_isolates_failures
      [where j = 0 and ro = ReadPool and rw = WritePool and UT = "[]" and PS = "[]"
         and C = 1 and start = 0 and sched = "[(1, Failed (JError ''boom''), 1)]"]
    by blast
  have e: "\<not> is_waiting (snd (run [(1, Failed JNull, 1), (0, Failed JNull, 2),
              (1, Failed JNull, 3), (1, Failed JNull, 4), (1, Failed JNull, 5)]
          (construct (array ReadPool WritePool 1 [] []) 0)) ! 1)"
    using a f updateMetrics_isolates_failures
      [where j = 1 and ro = ReadPool and rw = WritePool and UT = "[]" and PS = "[]"
         and C = 1 and start = 0
         and sched = "[(1, Failed JNull, 1), (0, Failed JNull, 2),
              (1, Failed JNull, 3), (1, Failed JNull, 4), (1, Failed JNull, 5)]"]
    by blast
  show ?thesis using a b c d e f w by blast
qed

text \<open>
  C1 fails on the code. With \<open>MAX_CONCURRENT_QUERIES = 1\<close> and no upload type or pin
  status, the five tasks have all issued their first query and are all pending when the
  array literal has been evaluated, before \<open>settle\<close> is called: the calls of
  \<open>withTimeLog\<close> are made in the array literal, and the options object is the last
  element of the array, not the second argument of \<open>settle\<close>.
\<close>

theorem updateMetrics_starts_all_tasks_at_once:
  "construct (array ReadPool WritePool 1 [] []) 0
     = ([Issued ReadPool COUNT_USERS [], Issued ReadPool SUM_CONTENT_DAG_SIZE [],
         Issued ReadPool COUNT_UPLOADS [], Issued ReadPool COUNT_PINS [],
         Issued ReadPool COUNT_PIN_REQUESTS []],
        snd (construct (array ReadPool WritePool 1 [] []) 0))
   \<and> in_flight (snd (construct (array ReadPool WritePool 1 [] []) 0)) = 5"
  by (simp add: array_def tasks_def withTimeLog_def fn_defs in_flight_def)

text \<open>
  C2 fails on the code. With no upload type or pin status there are five tasks; the
  replies arrive in the reverse of the order of submission, and the list that the loop
  iterates holds six outcomes: those of the five tasks, in the order of submission, and
  one more for the options object.
\<close>

theorem updateMetrics_results_have_extra_entry:
  "settle (snd (run
     [(4, Rows [[(''total'', JStr ''7'')]], 1), (4, Rows [], 2),
      (3, Rows [[(''total'', JStr ''7'')]], 3), (3, Rows [], 4),
      (2, Rows [[(''total'', JStr ''7'')]], 5), (2, Rows [], 6),
      (1, Rows [[(''total'', JStr ''7'')]], 7), (1, Failed (JError ''boom''), 8),
      (0, Rows [[(''total'', JStr ''7'')]], 9), (0, Rows [], 10)]
     (construct (array ReadPool WritePool 10 [] []) 0)))
   = Some [Fulfilled VUndefined, Rejected (JError ''boom''), Fulfilled (VResult []),
           Fulfilled VUndefined, Fulfilled VUndefined, Fulfilled (VOptions 10)]"
  by (simp add: run_def array_def tasks_def withTimeLog_def fn_defs)

end
